theory Spec2Isabelle
  imports Complex_Main
begin

section \<open>i.hyper.rgb: band selection and composite assembly\<close>

text \<open>
  A shallow embedding of \<^verbatim>\<open>src/i.hyper.rgb.py\<close>. Python strings are \<^typ>\<open>string\<close> and
  Python ints are \<^typ>\<open>int\<close>. A wavelength is a finite double, read as the \<^typ>\<open>real\<close> it
  denotes; a wavelength that is an infinity or NaN is outside the model. The one computation
  the module makes on doubles, \<^verbatim>\<open>abs(x - target_wavelength)\<close>, is not done in the reals:
  its result is taken from the host's arithmetic, so that it is rounded as the doubles round.
  A \<^verbatim>\<open>dict\<close> is an association list with distinct keys in insertion order, because
  \<^verbatim>\<open>min(wavelengths.keys(), ...)\<close> depends on the iteration order of the dictionary.
\<close>

subsection \<open>Python built-ins used by the module\<close>

text \<open>\<^verbatim>\<open>d[k] = v\<close>: an existing key keeps its position, a new key goes to the end.\<close>

fun dict_set :: "('k \<times> 'v) list \<Rightarrow> 'k \<Rightarrow> 'v \<Rightarrow> ('k \<times> 'v) list" where
  "dict_set [] k v = [(k, v)]"
| "dict_set ((k', v') # d) k v =
     (if k' = k then (k', v) # d else (k', v') # dict_set d k v)"

definition dict_keys :: "('k \<times> 'v) list \<Rightarrow> 'k list" where
  "dict_keys d = map fst d"

text \<open>
  \<^verbatim>\<open>min(xs, key=f)\<close>: the running best is replaced only by a strictly smaller key value,
  so the first minimal element in iteration order is returned; an empty iterable raises.
\<close>

fun min_from :: "('a \<Rightarrow> 'b::linorder) \<Rightarrow> 'a \<Rightarrow> 'a list \<Rightarrow> 'a" where
  "min_from f best [] = best"
| "min_from f best (x # xs) = min_from f (if f x < f best then x else best) xs"

text \<open>\<^verbatim>\<open>sep.join(xs)\<close>.\<close>

fun join :: "string \<Rightarrow> string list \<Rightarrow> string" where
  "join sep [] = []"
| "join sep [x] = x"
| "join sep (x # y # ys) = x @ sep @ join sep (y # ys)"

text \<open>\<^verbatim>\<open>str(i)\<close> for an int: decimal digits, with a minus sign for negative numbers.\<close>

definition digit_char :: "nat \<Rightarrow> char" where
  "digit_char d = ''0123456789'' ! d"

fun str_nat :: "nat \<Rightarrow> string" where
  "str_nat k = (if k < 10 then [digit_char k] else str_nat (k div 10) @ [digit_char (k mod 10)])"

declare str_nat.simps [simp del]

definition str_int :: "int \<Rightarrow> string" where
  "str_int i = (if i < 0 then CHR ''-'' # str_nat (nat (- i)) else str_nat (nat i))"

text \<open>
  \<^verbatim>\<open>s.lower()\<close> and \<^verbatim>\<open>s.upper()\<close> on the ASCII letters; other characters are left as
  they are.
\<close>

definition lower_char :: "char \<Rightarrow> char" where
  "lower_char c =
     (case map_of (zip ''ABCDEFGHIJKLMNOPQRSTUVWXYZ'' ''abcdefghijklmnopqrstuvwxyz'') c of
        Some l \<Rightarrow> l | None \<Rightarrow> c)"

definition upper_char :: "char \<Rightarrow> char" where
  "upper_char c =
     (case map_of (zip ''abcdefghijklmnopqrstuvwxyz'' ''ABCDEFGHIJKLMNOPQRSTUVWXYZ'') c of
        Some u \<Rightarrow> u | None \<Rightarrow> c)"

definition lower :: "string \<Rightarrow> string" where
  "lower s = map lower_char s"

definition upper :: "string \<Rightarrow> string" where
  "upper s = map upper_char s"

text \<open>\<^verbatim>\<open>s.startswith(p)\<close> and \<^verbatim>\<open>p in s\<close>.\<close>

fun startswith :: "string \<Rightarrow> string \<Rightarrow> bool" where
  "startswith s [] = True"
| "startswith [] (p # ps) = False"
| "startswith (c # cs) (p # ps) = (c = p \<and> startswith cs ps)"

fun contains :: "string \<Rightarrow> string \<Rightarrow> bool" where
  "contains [] p = (p = [])"
| "contains (c # cs) p = (startswith (c # cs) p \<or> contains cs p)"

text \<open>\<^verbatim>\<open>s.split(d)\<close> for a one-character separator: always at least one field.\<close>

fun split_chr :: "char \<Rightarrow> string \<Rightarrow> string list" where
  "split_chr d [] = [[]]"
| "split_chr d (c # cs) =
     (if c = d then [] # split_chr d cs
      else (case split_chr d cs of [] \<Rightarrow> [[c]] | w # ws \<Rightarrow> (c # w) # ws))"

text \<open>
  \<^verbatim>\<open>s.strip()\<close>: the characters below 256 for which \<^verbatim>\<open>isspace()\<close> holds are removed
  from both ends.
\<close>

definition is_space :: "char \<Rightarrow> bool" where
  "is_space c = ((of_char c :: nat) \<in> {9, 10, 11, 12, 13, 28, 29, 30, 31, 32, 133, 160})"

definition strip :: "string \<Rightarrow> string" where
  "strip s = rev (dropWhile is_space (rev (dropWhile is_space s)))"

subsection \<open>Errors, host commands and the event trace\<close>

text \<open>
  The three host modules run through \<^verbatim>\<open>gs.run_command\<close>, with the arguments the module
  passes: \<^verbatim>\<open>g.copy raster=...\<close>, \<^verbatim>\<open>r.rescale input= output= to=\<close> (always with
  \<^verbatim>\<open>overwrite\<close>) and \<^verbatim>\<open>i.group group= subgroup= input=\<close>.
\<close>

datatype command =
    GCopy string
  | RRescale string string string
  | IGroup string string string

text \<open>
  \<^verbatim>\<open>gs.fatal\<close> ends the run with its message; the other errors are the Python exceptions
  that the module does not catch.
\<close>

datatype error =
    Fatal string
  | ValueError
  | KeyError
  | CalledModuleError command

datatype event =
    Verbose string
  | Message string
  | Warning string
  | Run command

text \<open>
  A run yields the events it produced, in order, and either an error or a value. The events
  before an error are kept: they have happened.
\<close>

type_synonym 'a outcome = "event list \<times> (error + 'a)"

definition ret :: "'a \<Rightarrow> 'a outcome" where
  "ret x = ([], Inr x)"

definition raise :: "error \<Rightarrow> 'a outcome" where
  "raise e = ([], Inl e)"

definition emit :: "event \<Rightarrow> unit outcome" where
  "emit ev = ([ev], Inr ())"

definition seq :: "'a outcome \<Rightarrow> ('a \<Rightarrow> 'b outcome) \<Rightarrow> 'b outcome" where
  "seq m f =
     (case m of
        (es, Inl e) \<Rightarrow> (es, Inl e)
      | (es, Inr x) \<Rightarrow> (case f x of (es', r) \<Rightarrow> (es @ es', r)))"

definition lift :: "error + 'a \<Rightarrow> 'a outcome" where
  "lift r = ([], r)"

text \<open>
  What the module reads from its host: the depth count of a 3D raster (or the text of the
  exception \<^verbatim>\<open>gs.raster3d_info\<close> raised), the output of \<^verbatim>\<open>r.support -n\<close> for a band
  (\<open>None\<close> when the command raises), whether a host command succeeds, and Python's
  \<^verbatim>\<open>float(s)\<close> (\<open>None\<close> for \<^verbatim>\<open>ValueError\<close>) and \<^verbatim>\<open>str(x)\<close> of a float.

  \<open>float_dist x t\<close> is the double that \<^verbatim>\<open>abs(x - t)\<close> evaluates to for the doubles \<open>x\<close> and
  \<open>t\<close>: the difference is rounded to the nearest double and overflows to \<^verbatim>\<open>inf\<close>, and
  \<^verbatim>\<open>abs\<close> is exact. The module only compares these values with \<^verbatim>\<open><\<close>, so they are
  values of any linearly ordered type \<open>'d\<close>, as the doubles other than NaN are; the
  difference of two finite doubles is never NaN.
\<close>

record 'd env =
  raster3d_info :: "string \<Rightarrow> string + int"
  r_support :: "string \<Rightarrow> string option"
  run_ok :: "command \<Rightarrow> bool"
  float_of :: "string \<Rightarrow> real option"
  str_float :: "real \<Rightarrow> string"
  float_dist :: "real \<Rightarrow> real \<Rightarrow> 'd"

definition run_command :: "'d env \<Rightarrow> command \<Rightarrow> unit outcome" where
  "run_command E c = (if run_ok E c then ([Run c], Inr ()) else ([Run c], Inl (CalledModuleError c)))"

definition pyfloat :: "'d env \<Rightarrow> string \<Rightarrow> real outcome" where
  "pyfloat E s = (case float_of E s of None \<Rightarrow> raise ValueError | Some x \<Rightarrow> ret x)"

subsection \<open>Wavelength catalog\<close>

definition get_raster3d_info :: "'d env \<Rightarrow> string \<Rightarrow> int outcome" where
  "get_raster3d_info E raster3d =
     (case raster3d_info E raster3d of
        Inl e \<Rightarrow> raise (Fatal (''Cannot get info for 3D raster '' @ raster3d @ '': '' @ e))
      | Inr depths \<Rightarrow> ret depths)"

definition band_name :: "string \<Rightarrow> int \<Rightarrow> string" where
  "band_name raster3d i = raster3d @ ''#'' @ str_int i"

text \<open>
  The loop over the lines of one band's metadata. The first line that contains
  \<^verbatim>\<open>wavelength\<close> and has exactly two \<^verbatim>\<open>=\<close>-separated parts decides: its value is parsed
  and the loop is left; when \<^verbatim>\<open>float\<close> raises there, the enclosing \<^verbatim>\<open>except\<close> skips the
  band. \<open>None\<close> is "this band records nothing".
\<close>

fun scan_lines :: "(string \<Rightarrow> real option) \<Rightarrow> string list \<Rightarrow> real option" where
  "scan_lines pf [] = None"
| "scan_lines pf (line # rest) =
     (if contains (lower line) ''wavelength'' then
        (let parts = split_chr CHR ''='' line in
         if length parts = 2 then pf (strip (parts ! 1)) else scan_lines pf rest)
      else scan_lines pf rest)"

definition band_wavelength :: "'d env \<Rightarrow> string \<Rightarrow> int \<Rightarrow> real option" where
  "band_wavelength E raster3d i =
     (case r_support E (band_name raster3d i) of
        None \<Rightarrow> None
      | Some metadata \<Rightarrow> scan_lines (float_of E) (split_chr (CHR 0x0A) metadata))"

text \<open>The loop \<^verbatim>\<open>for i in range(1, depths + 1)\<close>, with the dictionary as accumulator.\<close>

fun scan_bands :: "'d env \<Rightarrow> string \<Rightarrow> int list \<Rightarrow> (real \<times> int) list \<Rightarrow> (real \<times> int) list" where
  "scan_bands E raster3d [] wavelengths = wavelengths"
| "scan_bands E raster3d (i # rest) wavelengths =
     scan_bands E raster3d rest
       (case band_wavelength E raster3d i of
          None \<Rightarrow> wavelengths
        | Some wl \<Rightarrow> dict_set wavelengths wl i)"

text \<open>The comprehension \<^verbatim>\<open>{float(i): i for i in range(1, depths + 1)}\<close>.\<close>

definition band_numbers :: "int \<Rightarrow> (real \<times> int) list" where
  "band_numbers depths = foldl (\<lambda>d i. dict_set d (of_int i) i) [] [1..depths]"

definition get_band_wavelengths :: "'d env \<Rightarrow> string \<Rightarrow> (real \<times> int) list outcome" where
  "get_band_wavelengths E raster3d =
     seq (get_raster3d_info E raster3d) (\<lambda>depths.
     seq (emit (Verbose (''Scanning '' @ str_int depths @ '' bands for wavelength metadata...''))) (\<lambda>_.
       let wavelengths = scan_bands E raster3d [1..depths] [] in
       if wavelengths = [] then
         seq (emit (Warning ''No wavelength metadata found. Using band numbers as wavelengths.'')) (\<lambda>_.
         ret (band_numbers depths))
       else ret wavelengths))"

subsection \<open>Band selection\<close>

text \<open>
  \<open>fdist x t\<close> is the value that \<^verbatim>\<open>abs(x - t)\<close> computes: \<open>float_dist\<close> of the host where
  the module calls the function. The key type \<open>'w\<close> is \<^typ>\<open>real\<close> there.
\<close>

definition find_closest_band ::
  "('w \<Rightarrow> 'w \<Rightarrow> 'd::linorder) \<Rightarrow> 'w \<Rightarrow> ('w \<times> int) list \<Rightarrow> error + (int \<times> 'w)" where
  "find_closest_band fdist target_wavelength wavelengths =
     (case dict_keys wavelengths of
        [] \<Rightarrow> Inl ValueError
      | k # ks \<Rightarrow>
          (let closest_wl = min_from (\<lambda>x. fdist x target_wavelength) k ks in
           case map_of wavelengths closest_wl of
             None \<Rightarrow> Inl KeyError
           | Some band \<Rightarrow> Inr (band, closest_wl)))"

subsection \<open>Statistical reduction\<close>

text \<open>
  \<^verbatim>\<open>calculate_statistic\<close> returns a pair: an expression text with \<^verbatim>\<open>None\<close>, or the
  list of band names with the name of an aggregation method.
\<close>

datatype stat_value = Expr string | Maps "string list"

definition calculate_statistic ::
  "string \<Rightarrow> int list \<Rightarrow> string \<Rightarrow> error + (stat_value \<times> string option)" where
  "calculate_statistic raster3d band_indices statistic =
     (let temp_maps = map (band_name raster3d) band_indices in
      if statistic = ''mean'' then
        Inr (Expr (''('' @ join '' + '' temp_maps @ '') / '' @ str_int (int (length temp_maps))), None)
      else if statistic = ''median'' then Inr (Maps temp_maps, Some ''median'')
      else if statistic = ''mode'' then Inr (Maps temp_maps, Some ''mode'')
      else if statistic = ''min'' then Inr (Maps temp_maps, Some ''minimum'')
      else if statistic = ''max'' then Inr (Maps temp_maps, Some ''maximum'')
      else if startswith statistic ''sd'' then Inr (Maps temp_maps, Some statistic)
      else Inl (Fatal (''Unknown statistic: '' @ statistic)))"

subsection \<open>Colorblind adjustment\<close>

definition adjustments :: "(string \<times> (string \<times> real \<times> real \<times> real) list) list" where
  "adjustments =
     [(''protanopia'',
         [(''red'', (0.567, 0.433, 0)), (''green'', (0.558, 0.442, 0)), (''blue'', (0, 0.242, 0.758))]),
      (''deuteranopia'',
         [(''red'', (0.625, 0.375, 0)), (''green'', (0.7, 0.3, 0)), (''blue'', (0, 0.3, 0.7))]),
      (''tritanopia'',
         [(''red'', (0.95, 0.05, 0)), (''green'', (0, 0.433, 0.567)), (''blue'', (0, 0.475, 0.525))])]"

definition apply_colorblind_adjustment :: "string list \<Rightarrow> string \<Rightarrow> string list outcome" where
  "apply_colorblind_adjustment channels colorblind_type =
     (case map_of adjustments colorblind_type of
        None \<Rightarrow> ret channels
      | Some adj \<Rightarrow>
          seq (emit (Message (''Applying '' @ colorblind_type @ '' color adjustments...''))) (\<lambda>_.
          seq (emit (Warning (''Colorblind adjustment for '' @ colorblind_type
                                @ '' selected but requires post-processing''))) (\<lambda>_.
          ret channels)))"

subsection \<open>Composite assembly\<close>

text \<open>The option and flag dictionaries that \<^verbatim>\<open>gs.parser()\<close> hands to the module.\<close>

record options =
  opt_input :: string
  opt_output :: string
  opt_colorspace :: string
  opt_statistic :: string
  opt_colorblind :: string
  opt_red_wavelength :: string
  opt_green_wavelength :: string
  opt_blue_wavelength :: string
  opt_cyan_wavelength :: string
  opt_magenta_wavelength :: string
  opt_yellow_wavelength :: string
  opt_key_wavelength :: string

record flags =
  flag_n :: bool

text \<open>
  The loop \<^verbatim>\<open>for color, band in channels.items()\<close>, which \<^verbatim>\<open>create_rgb_composite\<close> and
  \<^verbatim>\<open>create_cmyk_composite\<close> both contain word for word; \<open>output_maps\<close> is the list being
  appended to, and \<open>do_normalize\<close> is the source's \<^verbatim>\<open>normalize\<close>.
\<close>

fun channel_loop ::
  "'d env \<Rightarrow> string \<Rightarrow> string \<Rightarrow> bool \<Rightarrow> (string \<times> int) list \<Rightarrow> string list \<Rightarrow> string list outcome" where
  "channel_loop E input_raster output_base do_normalize [] output_maps = ret output_maps"
| "channel_loop E input_raster output_base do_normalize ((color, band) # rest) output_maps =
     (let output_map = output_base @ ''_'' @ color;
          input_band = input_raster @ ''#'' @ str_int band in
      seq (emit (Message (''Creating '' @ color @ '' channel: '' @ output_map))) (\<lambda>_.
      seq (run_command E (GCopy (input_band @ '','' @ output_map))) (\<lambda>_.
      seq (if do_normalize then run_command E (RRescale output_map output_map ''0,255'') else ret ()) (\<lambda>_.
      channel_loop E input_raster output_base do_normalize rest (output_maps @ [output_map])))))"

definition create_rgb_composite :: "('d::linorder) env \<Rightarrow> options \<Rightarrow> flags \<Rightarrow> unit outcome" where
  "create_rgb_composite E opts flgs =
     (let input_raster = opt_input opts;
          output_base = opt_output opts;
          colorblind = opt_colorblind opts;
          do_normalize = flag_n flgs in
      seq (get_band_wavelengths E input_raster) (\<lambda>wavelengths.
      seq (emit (Message (''Found '' @ str_int (int (length wavelengths)) @ '' wavelength bands''))) (\<lambda>_.
      seq (pyfloat E (opt_red_wavelength opts)) (\<lambda>red_wl.
      seq (pyfloat E (opt_green_wavelength opts)) (\<lambda>green_wl.
      seq (pyfloat E (opt_blue_wavelength opts)) (\<lambda>blue_wl.
      seq (lift (find_closest_band (float_dist E) red_wl wavelengths)) (\<lambda>(red_band, actual_red).
      seq (lift (find_closest_band (float_dist E) green_wl wavelengths)) (\<lambda>(green_band, actual_green).
      seq (lift (find_closest_band (float_dist E) blue_wl wavelengths)) (\<lambda>(blue_band, actual_blue).
      seq (emit (Message (''Selected bands - R: '' @ str_float E actual_red @ ''nm (band '' @ str_int red_band
                            @ ''), G: '' @ str_float E actual_green @ ''nm (band '' @ str_int green_band
                            @ ''), B: '' @ str_float E actual_blue @ ''nm (band '' @ str_int blue_band @ '')''))) (\<lambda>_.
      seq (channel_loop E input_raster output_base do_normalize
             [(''red'', red_band), (''green'', green_band), (''blue'', blue_band)] []) (\<lambda>output_maps.
      seq (if colorblind \<noteq> ''none''
           then seq (apply_colorblind_adjustment output_maps colorblind) (\<lambda>_. ret ())
           else ret ()) (\<lambda>_.
      let group_name = output_base @ ''_rgb'' in
      seq (run_command E (IGroup group_name group_name (join '','' output_maps))) (\<lambda>_.
      seq (emit (Message (''Created RGB image group: '' @ group_name))) (\<lambda>_.
      emit (Message (''Individual bands: '' @ join '', '' output_maps))))))))))))))))"

definition create_cmyk_composite :: "('d::linorder) env \<Rightarrow> options \<Rightarrow> flags \<Rightarrow> unit outcome" where
  "create_cmyk_composite E opts flgs =
     (let input_raster = opt_input opts;
          output_base = opt_output opts;
          do_normalize = flag_n flgs in
      seq (get_band_wavelengths E input_raster) (\<lambda>wavelengths.
      seq (emit (Message (''Found '' @ str_int (int (length wavelengths)) @ '' wavelength bands''))) (\<lambda>_.
      seq (pyfloat E (opt_cyan_wavelength opts)) (\<lambda>cyan_wl.
      seq (pyfloat E (opt_magenta_wavelength opts)) (\<lambda>magenta_wl.
      seq (pyfloat E (opt_yellow_wavelength opts)) (\<lambda>yellow_wl.
      seq (pyfloat E (opt_key_wavelength opts)) (\<lambda>key_wl.
      seq (lift (find_closest_band (float_dist E) cyan_wl wavelengths)) (\<lambda>(cyan_band, actual_cyan).
      seq (lift (find_closest_band (float_dist E) magenta_wl wavelengths)) (\<lambda>(magenta_band, actual_magenta).
      seq (lift (find_closest_band (float_dist E) yellow_wl wavelengths)) (\<lambda>(yellow_band, actual_yellow).
      seq (lift (find_closest_band (float_dist E) key_wl wavelengths)) (\<lambda>(key_band, actual_key).
      seq (emit (Message (''Selected bands - C: '' @ str_float E actual_cyan @ ''nm (band '' @ str_int cyan_band
                            @ ''), M: '' @ str_float E actual_magenta @ ''nm (band '' @ str_int magenta_band
                            @ ''), Y: '' @ str_float E actual_yellow @ ''nm (band '' @ str_int yellow_band
                            @ ''), K: '' @ str_float E actual_key @ ''nm (band '' @ str_int key_band @ '')''))) (\<lambda>_.
      seq (channel_loop E input_raster output_base do_normalize
             [(''cyan'', cyan_band), (''magenta'', magenta_band), (''yellow'', yellow_band),
              (''key'', key_band)] []) (\<lambda>output_maps.
      let group_name = output_base @ ''_cmyk'' in
      seq (run_command E (IGroup group_name group_name (join '','' output_maps))) (\<lambda>_.
      seq (emit (Message (''Created CMYK image group: '' @ group_name))) (\<lambda>_.
      emit (Message (''Individual bands: '' @ join '', '' output_maps)))))))))))))))))"

definition main :: "('d::linorder) env \<Rightarrow> options \<Rightarrow> flags \<Rightarrow> unit outcome" where
  "main E opts flgs =
     (let colorspace = opt_colorspace opts in
      seq (emit (Message (''Creating '' @ upper colorspace @ '' composite...''))) (\<lambda>_.
      seq (if colorspace = ''rgb'' then create_rgb_composite E opts flgs
           else if colorspace = ''cmyk'' then create_cmyk_composite E opts flgs
           else raise (Fatal (''Unknown colorspace: '' @ colorspace))) (\<lambda>_.
      emit (Message ''Composite creation complete!''))))"

text \<open>
  Reading a trace: the host commands run, the warnings issued, and among the commands the
  \<^verbatim>\<open>raster\<close> arguments of the \<^verbatim>\<open>g.copy\<close> calls and the arguments of the
  \<^verbatim>\<open>i.group\<close> calls.
\<close>

fun commands_of :: "event list \<Rightarrow> command list" where
  "commands_of [] = []"
| "commands_of (Run c # es) = c # commands_of es"
| "commands_of (e # es) = commands_of es"

fun warnings_of :: "event list \<Rightarrow> string list" where
  "warnings_of [] = []"
| "warnings_of (Warning w # es) = w # warnings_of es"
| "warnings_of (e # es) = warnings_of es"

fun copies_of :: "command list \<Rightarrow> string list" where
  "copies_of [] = []"
| "copies_of (GCopy r # cs) = r # copies_of cs"
| "copies_of (c # cs) = copies_of cs"

fun groups_of :: "command list \<Rightarrow> (string \<times> string \<times> string) list" where
  "groups_of [] = []"
| "groups_of (IGroup g sg inp # cs) = (g, sg, inp) # groups_of cs"
| "groups_of (c # cs) = groups_of cs"

subsection \<open>Option values\<close>

text \<open>
  The values that the module's option header declares for \<^verbatim>\<open>statistic\<close> and
  \<^verbatim>\<open>colorblind\<close>; the host's parser accepts no others.
\<close>

definition statistic_options :: "string list" where
  "statistic_options =
     [''mean'', ''median'', ''mode'', ''min'', ''max'', ''sd1_pos'', ''sd2_pos'', ''sd3_pos'',
      ''sd1_neg'', ''sd2_neg'', ''sd3_neg'']"

definition colorblind_options :: "string list" where
  "colorblind_options = [''none'', ''protanopia'', ''deuteranopia'', ''tritanopia'']"

subsection \<open>Example hosts\<close>

text \<open>
  Concrete hosts for evaluating the module: a stack of \<open>depths\<close> bands whose metadata is a
  table from band name to \<^verbatim>\<open>r.support\<close> output, every host command succeeding, and a
  \<^verbatim>\<open>float\<close> that reads unsigned decimal integers (a part of what Python's accepts).
  Distances are exact, as the doubles compute them for the integers of these examples: the
  difference of two integers below \<open>2^53\<close> is a double.
\<close>

definition digit_val :: "char \<Rightarrow> nat option" where
  "digit_val c = map_of (zip ''0123456789'' [0, 1, 2, 3, 4, 5, 6, 7, 8, 9]) c"

fun digits_val :: "string \<Rightarrow> nat \<Rightarrow> nat option" where
  "digits_val [] acc = Some acc"
| "digits_val (c # cs) acc =
     (case digit_val c of None \<Rightarrow> None | Some d \<Rightarrow> digits_val cs (10 * acc + d))"

definition demo_float :: "string \<Rightarrow> real option" where
  "demo_float s = (if s = [] then None else map_option real (digits_val s 0))"

definition demo_env :: "int \<Rightarrow> (string \<times> string) list \<Rightarrow> real env" where
  "demo_env depths metadata =
     \<lparr> raster3d_info = (\<lambda>_. Inr depths),
       r_support = map_of metadata,
       run_ok = (\<lambda>_. True),
       float_of = demo_float,
       str_float = (\<lambda>x. str_int \<lfloor>x\<rfloor>),
       float_dist = (\<lambda>x t. \<bar>x - t\<bar>) \<rparr>"

definition demo_options :: "string \<Rightarrow> string \<Rightarrow> options" where
  "demo_options colorspace colorblind =
     \<lparr> opt_input = ''cube'', opt_output = ''out'', opt_colorspace = colorspace,
       opt_statistic = ''mean'', opt_colorblind = colorblind,
       opt_red_wavelength = ''650'', opt_green_wavelength = ''550'', opt_blue_wavelength = ''450'',
       opt_cyan_wavelength = ''490'', opt_magenta_wavelength = ''580'',
       opt_yellow_wavelength = ''570'', opt_key_wavelength = ''800'' \<rparr>"

text \<open>A stack of four bands labelled 450, 550, 650 and 800 nm.\<close>

definition four_band_env :: "real env" where
  "four_band_env = demo_env 4 [(''cube#1'', ''wavelength=450''), (''cube#2'', ''wavelength=550''),
       (''cube#3'', ''wavelength=650''), (''cube#4'', ''wavelength=800'')]"

text \<open>
  A distance as the doubles compute it where the exact difference lies between \<open>2^e\<close> and
  \<open>2^(e+1)\<close>: there the doubles are the multiples of \<open>q = 2^(e-52)\<close>, and the difference is
  rounded to the nearest of them, to the even multiple when it lies halfway.
\<close>

definition round_half_even :: "real \<Rightarrow> int" where
  "round_half_even x =
     (let f = \<lfloor>x\<rfloor>; r = x - of_int f in
      if r < 1 / 2 then f else if 1 / 2 < r then f + 1 else if even f then f else f + 1)"

definition rounded_dist :: "real \<Rightarrow> real \<Rightarrow> real \<Rightarrow> real" where
  "rounded_dist q x t = of_int (round_half_even (\<bar>x - t\<bar> / q)) * q"

section \<open>Band selection: closest key and ties\<close>

lemma min_from_split:
  "(\<forall>y\<in>set pre0. f b < f y) \<Longrightarrow> (\<forall>y\<in>set mid. f b \<le> f y) \<Longrightarrow>
   \<exists>pre post. pre0 @ b # mid @ xs = pre @ min_from f b xs # post
     \<and> (\<forall>y\<in>set pre. f (min_from f b xs) < f y)
     \<and> (\<forall>y\<in>set post. f (min_from f b xs) \<le> f y)"
proof (induction xs arbitrary: pre0 b mid)
  case Nil
  then show ?case by auto
next
  case (Cons x xs)
  show ?case
  proof (cases "f x < f b")
    case True
    have a: "\<forall>y\<in>set (pre0 @ b # mid). f x < f y"
      using True Cons.prems by fastforce
    have b: "\<forall>y\<in>set ([]::'a list). f x \<le> f y" by simp
    from Cons.IH [OF a b] True show ?thesis by simp
  next
    case False
    have b: "\<forall>y\<in>set (mid @ [x]). f b \<le> f y"
      using False Cons.prems by auto
    from Cons.IH [OF Cons.prems(1) b] False show ?thesis by simp
  qed
qed

lemma min_from_first:
  "\<exists>pre post. b # xs = pre @ min_from f b xs # post
     \<and> (\<forall>y\<in>set pre. f (min_from f b xs) < f y)
     \<and> (\<forall>y\<in>set post. f (min_from f b xs) \<le> f y)"
  using min_from_split [of "[]" f b "[]" xs] by simp

lemma min_from_mem: "min_from f b xs \<in> set (b # xs)"
  by (induction xs arbitrary: b) auto

lemma min_from_least: "y \<in> set (b # xs) \<Longrightarrow> f (min_from f b xs) \<le> f y"
proof -
  assume y: "y \<in> set (b # xs)"
  obtain pre post where s: "b # xs = pre @ min_from f b xs # post"
    and p: "\<forall>y\<in>set pre. f (min_from f b xs) < f y"
    and q: "\<forall>y\<in>set post. f (min_from f b xs) \<le> f y"
    using min_from_first [of b xs f] by blast
  from y s have "y \<in> set pre \<or> y = min_from f b xs \<or> y \<in> set post"
    by (metis Un_iff set_ConsD set_append)
  with p q show ?thesis by auto
qed

lemma map_of_key_in: "k \<in> set (map fst d) \<Longrightarrow> \<exists>v. map_of d k = Some v"
  by (induction d) auto

lemma find_closest_band_key:
  assumes "dict_keys wavelengths = k0 # ks"
  shows "\<exists>band. find_closest_band fdist t wavelengths = Inr (band, min_from (\<lambda>x. fdist x t) k0 ks)
           \<and> map_of wavelengths (min_from (\<lambda>x. fdist x t) k0 ks) = Some band"
proof -
  have "min_from (\<lambda>x. fdist x t) k0 ks \<in> set (map fst wavelengths)"
    using min_from_mem [of "\<lambda>x. fdist x t" k0 ks] assms by (simp add: dict_keys_def)
  then obtain band where "map_of wavelengths (min_from (\<lambda>x. fdist x t) k0 ks) = Some band"
    using map_of_key_in by fastforce
  then show ?thesis by (simp add: find_closest_band_def assms)
qed

text \<open>
  Claim C1. For a non-empty catalog and any target wavelength, \<open>find_closest_band\<close>
  returns a pair of a band and a key: the key is a key of the catalog, the band is the
  catalog's value at that key, and for no key \<open>k'\<close> of the catalog is \<^verbatim>\<open>abs(k' - t)\<close> smaller
  than \<^verbatim>\<open>abs(k - t)\<close>. Both distances are the doubles that the program computes, \<open>fdist\<close>,
  whatever the rounding of the subtraction is.
\<close>

theorem find_closest_band_minimal:
  assumes "wavelengths \<noteq> []"
  shows "\<exists>band k. find_closest_band fdist t wavelengths = Inr (band, k)
           \<and> k \<in> set (dict_keys wavelengths)
           \<and> map_of wavelengths k = Some band
           \<and> (\<forall>k'\<in>set (dict_keys wavelengths). \<not> fdist k' t < fdist k t)"
proof -
  from assms obtain k0 ks where ks: "dict_keys wavelengths = k0 # ks"
    by (cases wavelengths) (auto simp: dict_keys_def)
  define k where "k = min_from (\<lambda>x. fdist x t) k0 ks"
  obtain band where res: "find_closest_band fdist t wavelengths = Inr (band, k)"
    and band: "map_of wavelengths k = Some band"
    unfolding k_def using find_closest_band_key [OF ks] by blast
  have mem: "k \<in> set (dict_keys wavelengths)"
    unfolding k_def ks by (rule min_from_mem)
  have least: "\<forall>k'\<in>set (dict_keys wavelengths). \<not> fdist k' t < fdist k t"
    unfolding k_def ks using min_from_least [of _ k0 ks "\<lambda>x. fdist x t"] by (meson not_le)
  from res mem band least show ?thesis by blast
qed

text \<open>
  Witness for C1: the catalog \<open>{450: 1, 550: 2, 650: 3, 800: 4}\<close> and the target 600, which
  lies at the same distance from 550 and 650. On these integers the doubles subtract exactly.
\<close>

theorem find_closest_band_minimal_witness:
  "[(450, 1), (550, 2), (650, 3), (800, 4)] \<noteq> ([] :: (real \<times> int) list)
   \<and> find_closest_band (\<lambda>x t :: real. \<bar>x - t\<bar>) 600 [(450, 1), (550, 2), (650, 3), (800, 4)]
       = Inr (2, 550)"
  using find_closest_band_minimal [of "[(450 :: real, 1), (550, 2), (650, 3), (800, 4)]"
      "\<lambda>x t :: real. \<bar>x - t\<bar>" 600]
  by (simp add: find_closest_band_def dict_keys_def)

text \<open>
  What the computed distances say about the exact ones, for any rounding \<open>rnd\<close> of the exact
  distance that is monotone, as rounding to the nearest double is: a key that is closer to the
  target in the reals than the returned key has the same computed distance.
\<close>

lemma find_closest_band_exact_distance:
  assumes res: "find_closest_band (\<lambda>x t. rnd \<bar>x - t\<bar>) t wavelengths = Inr (band, k)"
    and mono: "\<And>a b :: real. a \<le> b \<Longrightarrow> (rnd a :: 'd::linorder) \<le> rnd b"
    and k': "k' \<in> set (dict_keys wavelengths)" and closer: "\<bar>k' - t\<bar> < \<bar>k - t\<bar>"
  shows "rnd \<bar>k' - t\<bar> = rnd \<bar>k - t\<bar>"
proof -
  from k' obtain k0 ks where ks: "dict_keys wavelengths = k0 # ks"
    by (cases "dict_keys wavelengths") auto
  from find_closest_band_key [OF ks, of "\<lambda>x t. rnd \<bar>x - t\<bar>" t] res
  have k: "k = min_from (\<lambda>x. rnd \<bar>x - t\<bar>) k0 ks" by auto
  have "rnd \<bar>k - t\<bar> \<le> rnd \<bar>k' - t\<bar>"
    unfolding k using min_from_least [of k' k0 ks "\<lambda>x. rnd \<bar>x - t\<bar>"] k' ks by simp
  moreover have "rnd \<bar>k' - t\<bar> \<le> rnd \<bar>k - t\<bar>"
    using closer by (intro mono) simp
  ultimately show ?thesis by simp
qed

text \<open>
  Two keys at the same computed distance: the first one is returned, also when the second is
  the closer one in the reals and the two distances are equal only after rounding.
\<close>

lemma find_closest_band_computed_tie:
  "fdist a t = fdist b t \<Longrightarrow> find_closest_band fdist t [(a, i), (b, j)] = Inr (i, a)"
  by (simp add: find_closest_band_def dict_keys_def)

text \<open>
  The doubles written \<^verbatim>\<open>486.7\<close> and \<^verbatim>\<open>1583.3\<close> are such a pair for the target 1035: their
  exact distances differ by \<open>2^-44\<close>, both lie between \<open>2^9\<close> and \<open>2^10\<close>, where the doubles
  are the multiples of \<open>2^-43\<close>, and both round to the same double. Band 1 is returned,
  though the key of band 2 is the closer one in the reals.
\<close>

lemma rounded_dist_first:
  "rounded_dist (1 / 2 ^ 43) (8562116947817267 / 17592186044416) 1035
     = 2411448902038323 / 4398046511104"
  by (simp add: rounded_dist_def round_half_even_def Let_def)

lemma rounded_dist_second:
  "rounded_dist (1 / 2 ^ 43) (6963427041030963 / 4398046511104) 1035
     = 2411448902038323 / 4398046511104"
  by (simp add: rounded_dist_def round_half_even_def Let_def)

lemma rounded_tie_example:
  "find_closest_band (rounded_dist (1 / 2 ^ 43)) 1035
     [(8562116947817267 / 17592186044416, 1), (6963427041030963 / 4398046511104, 2)]
     = Inr (1, 8562116947817267 / 17592186044416)
   \<and> \<bar>6963427041030963 / 4398046511104 - 1035\<bar>
       < \<bar>8562116947817267 / 17592186044416 - (1035 :: real)\<bar>"
proof -
  have tie: "rounded_dist (1 / 2 ^ 43) (8562116947817267 / 17592186044416) 1035
      = rounded_dist (1 / 2 ^ 43) (6963427041030963 / 4398046511104) 1035"
    by (simp only: rounded_dist_first rounded_dist_second)
  have closer: "\<bar>6963427041030963 / 4398046511104 - 1035\<bar>
       < \<bar>8562116947817267 / 17592186044416 - (1035 :: real)\<bar>"
    by simp
  from find_closest_band_computed_tie [of "rounded_dist (1 / 2 ^ 43)"
      "8562116947817267 / 17592186044416" 1035 "6963427041030963 / 4398046511104" 1 2, OF tie]
    closer
  show ?thesis by blast
qed

text \<open>
  A stack whose band 1 is labelled 560 nm and band 2 540 nm: the catalog lists the keys in
  the order of the scan, not in ascending order.
\<close>

lemma descending_stack_catalog:
  "get_band_wavelengths
     (demo_env 2 [(''cube#1'', ''wavelength=560''), (''cube#2'', ''wavelength=540'')]) ''cube'' =
     ([Verbose ''Scanning 2 bands for wavelength metadata...''], Inr [(560, 1), (540, 2)])"
proof -
  have two: "[1..2::int] = [1, 2]" by (simp add: upto.simps)
  show ?thesis
    by (simp add: get_band_wavelengths_def get_raster3d_info_def seq_def ret_def emit_def two
        demo_env_def demo_float_def digit_val_def band_name_def str_int_def str_nat.simps
        digit_char_def band_wavelength_def lower_def lower_char_def strip_def is_space_def)
qed

text \<open>
  Claim C2 as stated fails: in the catalog built from that stack both keys are at the computed
  distance 10 from the target 550, and the module returns 560, the key inserted first, not the
  smaller key 540.
\<close>

theorem find_closest_band_tie_counterexample:
  "snd (get_band_wavelengths
     (demo_env 2 [(''cube#1'', ''wavelength=560''), (''cube#2'', ''wavelength=540'')]) ''cube'')
     = Inr [(560, 1), (540, 2)]
   \<and> find_closest_band
       (float_dist (demo_env 2 [(''cube#1'', ''wavelength=560''), (''cube#2'', ''wavelength=540'')]))
       550 [(560, 1), (540, 2)] = Inr (1, 560)
   \<and> float_dist (demo_env 2 [(''cube#1'', ''wavelength=560''), (''cube#2'', ''wavelength=540'')])
       540 550
     = float_dist (demo_env 2 [(''cube#1'', ''wavelength=560''), (''cube#2'', ''wavelength=540'')])
       560 550
   \<and> (540::real) < 560"
proof -
  let ?E = "demo_env 2 [(''cube#1'', ''wavelength=560''), (''cube#2'', ''wavelength=540'')]"
  have cat: "snd (get_band_wavelengths ?E ''cube'') = Inr [(560, 1), (540, 2)]"
    by (simp add: descending_stack_catalog)
  have d: "float_dist ?E = (\<lambda>x t. \<bar>x - t\<bar>)"
    by (simp add: demo_env_def)
  have sel: "find_closest_band (float_dist ?E) 550 [(560, 1), (540, 2)] = Inr (1, 560)"
    unfolding d by (simp add: find_closest_band_def dict_keys_def)
  have tie: "float_dist ?E 540 550 = float_dist ?E 560 550"
    unfolding d by simp
  from cat sel tie show ?thesis by simp
qed

text \<open>
  Claim C2, amended. Among the keys at minimal computed distance the module returns the first
  one in the catalog's iteration order, which is insertion order: every key before it has a
  strictly larger computed distance to the target, every key after it one at least as large.
  It is the smallest such key when the keys were inserted in ascending order.
\<close>

theorem find_closest_band_first_minimal:
  assumes "wavelengths \<noteq> []"
  shows "\<exists>band k pre post. find_closest_band fdist t wavelengths = Inr (band, k)
           \<and> dict_keys wavelengths = pre @ k # post
           \<and> (\<forall>k'\<in>set pre. fdist k t < fdist k' t)
           \<and> (\<forall>k'\<in>set post. fdist k t \<le> fdist k' t)
           \<and> (sorted (dict_keys wavelengths) \<longrightarrow>
                (\<forall>k'\<in>set (dict_keys wavelengths). fdist k' t = fdist k t \<longrightarrow> k \<le> k'))"
proof -
  from assms obtain k0 ks where ks: "dict_keys wavelengths = k0 # ks"
    by (cases wavelengths) (auto simp: dict_keys_def)
  define k where "k = min_from (\<lambda>x. fdist x t) k0 ks"
  obtain pre post where s: "k0 # ks = pre @ k # post"
    and p: "\<forall>y\<in>set pre. fdist k t < fdist y t"
    and q: "\<forall>y\<in>set post. fdist k t \<le> fdist y t"
    unfolding k_def using min_from_first [of k0 ks "\<lambda>x. fdist x t"] by blast
  obtain band where res: "find_closest_band fdist t wavelengths = Inr (band, k)"
    unfolding k_def using find_closest_band_key [OF ks] by blast
  have asc: "\<forall>k'\<in>set (dict_keys wavelengths). fdist k' t = fdist k t \<longrightarrow> k \<le> k'"
    if srt: "sorted (dict_keys wavelengths)"
  proof (intro ballI impI)
    fix k' assume k': "k' \<in> set (dict_keys wavelengths)" and eq: "fdist k' t = fdist k t"
    from k' ks s have "k' \<in> set pre \<or> k' = k \<or> k' \<in> set post" by auto
    moreover have "k' \<notin> set pre" using p eq by auto
    moreover have "k \<le> k'" if "k' \<in> set post"
      using srt that unfolding ks s by (simp add: sorted_append)
    ultimately show "k \<le> k'" by auto
  qed
  from res s p q asc ks show ?thesis by auto
qed

text \<open>
  Witness for the amended C2: a catalog with ascending keys and a tie at the target 550.
\<close>

theorem find_closest_band_first_minimal_witness:
  "[(540, 1), (560, 2)] \<noteq> ([] :: (real \<times> int) list)
   \<and> sorted (dict_keys [(540 :: real, 1 :: int), (560, 2)])
   \<and> find_closest_band (\<lambda>x t :: real. \<bar>x - t\<bar>) 550 [(540, 1), (560, 2)] = Inr (1, 540)"
  using find_closest_band_first_minimal [of "[(540 :: real, 1), (560, 2)]"
      "\<lambda>x t :: real. \<bar>x - t\<bar>" 550]
  by (simp add: find_closest_band_def dict_keys_def)

section \<open>The wavelength catalog\<close>

text \<open>Unfolding the example hosts.\<close>

lemmas demo_eval = demo_env_def demo_float_def digit_val_def band_name_def str_int_def
  str_nat.simps digit_char_def band_wavelength_def lower_def lower_char_def strip_def
  is_space_def

lemma ivl3: "{1..3::int} = {1, 2, 3}" by auto

lemma upto3: "[1..3::int] = [1, 2, 3]" by (simp add: upto.simps)

lemma dict_set_new: "k \<notin> fst ` set d \<Longrightarrow> dict_set d k v = d @ [(k, v)]"
  by (induction d) auto


lemma dict_set_not_Nil: "dict_set d k v \<noteq> []"
  by (cases d) (auto split: if_splits)

lemma map_of_dict_set: "map_of (dict_set d k v) = (map_of d)(k \<mapsto> v)"
  by (induction d) (auto simp: fun_eq_iff)


lemma keys_dict_set: "fst ` set (dict_set d k v) = insert k (fst ` set d)"
proof (induction d)
  case Nil
  then show ?case by simp
next
  case (Cons p d)
  obtain k' v' where p: "p = (k', v')" by (cases p)
  show ?case
  proof (cases "k' = k")
    case True
    then show ?thesis unfolding p by auto
  next
    case False
    then show ?thesis unfolding p using Cons.IH by auto
  qed
qed

lemma distinct_dict_set: "distinct (map fst d) \<Longrightarrow> distinct (map fst (dict_set d k v))"
  by (induction d) (auto simp: keys_dict_set)


lemma foldl_band_numbers:
  "distinct js \<Longrightarrow> (\<forall>j\<in>set js. real_of_int j \<notin> fst ` set d) \<Longrightarrow>
   foldl (\<lambda>d i. dict_set d (real_of_int i) i) d js = d @ map (\<lambda>i. (real_of_int i, i)) js"
proof (induction js arbitrary: d)
  case Nil
  then show ?case by simp
next
  case (Cons j js)
  have new: "dict_set d (real_of_int j) j = d @ [(real_of_int j, j)]"
    using Cons.prems by (simp add: dict_set_new)
  have "\<forall>i\<in>set js. real_of_int i \<notin> fst ` set (d @ [(real_of_int j, j)])"
    using Cons.prems by auto
  with Cons.IH [of "d @ [(real_of_int j, j)]"] Cons.prems new show ?case by simp
qed


lemma band_numbers_eq: "band_numbers depths = map (\<lambda>i. (real_of_int i, i)) [1..depths]"
  unfolding band_numbers_def using foldl_band_numbers [of "[1..depths]" "[]"] by simp


lemma scan_bands_none:
  "\<forall>i\<in>set js. band_wavelength E r i = None \<Longrightarrow> scan_bands E r js d = d"
  by (induction js arbitrary: d) auto


lemma scan_bands_not_Nil: "d \<noteq> [] \<Longrightarrow> scan_bands E r js d \<noteq> []"
  by (induction js arbitrary: d) (auto simp: dict_set_not_Nil split: option.splits)


lemma scan_bands_distinct:
  "distinct (map fst d) \<Longrightarrow> distinct (map fst (scan_bands E r js d))"
  by (induction js arbitrary: d) (auto simp: distinct_dict_set split: option.splits)


lemma scan_bands_last:
  "map_of (scan_bands E r js d) w =
     (if filter (\<lambda>i. band_wavelength E r i = Some w) js = [] then map_of d w
      else Some (last (filter (\<lambda>i. band_wavelength E r i = Some w) js)))"
proof (induction js arbitrary: d)
  case Nil
  then show ?case by simp
next
  case (Cons j js)
  show ?case
  proof (cases "band_wavelength E r j")
    case None
    then show ?thesis using Cons.IH [of d] by simp
  next
    case (Some w')
    then show ?thesis
      using Cons.IH [of "dict_set d w' j"] by (simp add: map_of_dict_set)
  qed
qed

text \<open>
  Claim C3. When no band of an \<open>N\<close>-band stack (\<open>N \<ge> 1\<close>) records a wavelength, the
  module issues the warning and returns the catalog \<open>{1.0: 1, ..., N.0: N}\<close>, in this
  order and with no other entry.
\<close>

theorem get_band_wavelengths_fallback:
  assumes "raster3d_info E raster3d = Inr N" and "1 \<le> N"
    and "\<forall>i\<in>{1..N}. band_wavelength E raster3d i = None"
  shows "get_band_wavelengths E raster3d =
           ([Verbose (''Scanning '' @ str_int N @ '' bands for wavelength metadata...''),
             Warning ''No wavelength metadata found. Using band numbers as wavelengths.''],
            Inr (map (\<lambda>i. (real_of_int i, i)) [1..N]))"
proof -
  have "scan_bands E raster3d [1..N] [] = []"
    using assms(3) by (simp add: scan_bands_none)
  then show ?thesis
    using assms(1)
    by (simp add: get_band_wavelengths_def get_raster3d_info_def seq_def ret_def emit_def
        band_numbers_eq)
qed


text \<open>
  Witness for C3: three bands whose metadata has no wavelength line, a wavelength line that is
  not of the shape \<^verbatim>\<open>label=value\<close>, and a value that \<^verbatim>\<open>float\<close> rejects.
\<close>

theorem get_band_wavelengths_fallback_witness:
  "raster3d_info (demo_env 3 [(''cube#1'', ''units=nm''), (''cube#2'', ''wavelength''),
       (''cube#3'', ''Wavelength=n/a'')]) ''cube'' = Inr 3
   \<and> (1::int) \<le> 3
   \<and> band_wavelength (demo_env 3 [(''cube#1'', ''units=nm''),
          (''cube#2'', ''wavelength''), (''cube#3'', ''Wavelength=n/a'')]) ''cube'' 1 = None
   \<and> band_wavelength (demo_env 3 [(''cube#1'', ''units=nm''),
          (''cube#2'', ''wavelength''), (''cube#3'', ''Wavelength=n/a'')]) ''cube'' 2 = None
   \<and> band_wavelength (demo_env 3 [(''cube#1'', ''units=nm''),
          (''cube#2'', ''wavelength''), (''cube#3'', ''Wavelength=n/a'')]) ''cube'' 3 = None
   \<and> get_band_wavelengths (demo_env 3 [(''cube#1'', ''units=nm''), (''cube#2'', ''wavelength''),
          (''cube#3'', ''Wavelength=n/a'')]) ''cube'' =
         ([Verbose ''Scanning 3 bands for wavelength metadata...'',
           Warning ''No wavelength metadata found. Using band numbers as wavelengths.''],
          Inr [(1, 1), (2, 2), (3, 3)])"
proof -
  let ?E = "demo_env 3 [(''cube#1'', ''units=nm''), (''cube#2'', ''wavelength''),
       (''cube#3'', ''Wavelength=n/a'')]"
  have h1: "raster3d_info ?E ''cube'' = Inr 3" by (simp add: demo_env_def)
  have h2: "(1::int) \<le> 3" by simp
  have h3: "\<forall>i\<in>{1..3}. band_wavelength ?E ''cube'' i = None"
    unfolding ivl3 by (simp add: demo_eval)
  show ?thesis
    using get_band_wavelengths_fallback [OF h1 h2 h3] h1 h3
    unfolding ivl3 by (simp add: upto3 str_int_def str_nat.simps digit_char_def)
qed

text \<open>
  Claim C4. When bands \<open>i < j\<close> record the same wavelength \<open>w\<close>, and \<open>j\<close> is the last
  band scanned that records it, the catalog maps \<open>w\<close> to \<open>j\<close> and not to \<open>i\<close>.
\<close>

theorem get_band_wavelengths_last_wins:
  assumes "raster3d_info E raster3d = Inr depths"
    and "1 \<le> i" and "i < j" and "j \<le> depths"
    and "band_wavelength E raster3d i = Some w"
    and "band_wavelength E raster3d j = Some w"
    and "\<forall>k. j < k \<and> k \<le> depths \<longrightarrow> band_wavelength E raster3d k \<noteq> Some w"
  shows "\<exists>es wavelengths. get_band_wavelengths E raster3d = (es, Inr wavelengths)
           \<and> map_of wavelengths w = Some j \<and> map_of wavelengths w \<noteq> Some i"
proof -
  let ?P = "\<lambda>k. band_wavelength E raster3d k = Some w"
  define wl where "wl = scan_bands E raster3d [1..depths] []"
  have split: "[1..depths] = [1..j - 1] @ j # [j + 1..depths]"
    using assms(2-4) upto_split3 [of 1 j depths] by simp
  have tail: "filter ?P [j + 1..depths] = []"
    using assms(7) by (auto simp: filter_empty_conv)
  have "filter ?P [1..depths] = filter ?P [1..j - 1] @ [j]"
    unfolding split using assms(6) tail by simp
  then have at_w: "map_of wl w = Some j"
    unfolding wl_def by (simp add: scan_bands_last)
  then have "wl \<noteq> []" by auto
  then have "get_band_wavelengths E raster3d =
      ([Verbose (''Scanning '' @ str_int depths @ '' bands for wavelength metadata...'')], Inr wl)"
    using assms(1)
    by (simp add: get_band_wavelengths_def get_raster3d_info_def seq_def ret_def emit_def
        wl_def [symmetric])
  with at_w assms(3) show ?thesis by auto
qed

text \<open>
  Witness for C4: bands 1 and 3 both record 560 nm; the catalog keeps the key at its first
  position and maps it to band 3.
\<close>

theorem get_band_wavelengths_last_wins_witness:
  "raster3d_info (demo_env 3 [(''cube#1'', ''wavelength=560''), (''cube#2'', ''wavelength=540''),
       (''cube#3'', ''wavelength=560'')]) ''cube'' = Inr 3
   \<and> band_wavelength (demo_env 3 [(''cube#1'', ''wavelength=560''), (''cube#2'', ''wavelength=540''),
       (''cube#3'', ''wavelength=560'')]) ''cube'' 1 = Some 560
   \<and> band_wavelength (demo_env 3 [(''cube#1'', ''wavelength=560''), (''cube#2'', ''wavelength=540''),
       (''cube#3'', ''wavelength=560'')]) ''cube'' 3 = Some 560
   \<and> get_band_wavelengths (demo_env 3 [(''cube#1'', ''wavelength=560''), (''cube#2'', ''wavelength=540''),
       (''cube#3'', ''wavelength=560'')]) ''cube'' =
         ([Verbose ''Scanning 3 bands for wavelength metadata...''], Inr [(560, 3), (540, 2)])"
proof -
  let ?E = "demo_env 3 [(''cube#1'', ''wavelength=560''), (''cube#2'', ''wavelength=540''),
       (''cube#3'', ''wavelength=560'')]"
  have h1: "raster3d_info ?E ''cube'' = Inr 3" by (simp add: demo_env_def)
  have h5: "band_wavelength ?E ''cube'' 1 = Some 560" by (simp add: demo_eval)
  have h6: "band_wavelength ?E ''cube'' 3 = Some 560" by (simp add: demo_eval)
  have h7: "\<forall>k. (3::int) < k \<and> k \<le> 3 \<longrightarrow> band_wavelength ?E ''cube'' k \<noteq> Some 560" by auto
  have b2: "band_wavelength ?E ''cube'' 2 = Some 540" by (simp add: demo_eval)
  have run: "get_band_wavelengths ?E ''cube'' =
         ([Verbose ''Scanning 3 bands for wavelength metadata...''], Inr [(560, 3), (540, 2)])"
    using h1 h5 h6 b2
    by (simp add: get_band_wavelengths_def get_raster3d_info_def seq_def ret_def emit_def
        upto3 str_int_def str_nat.simps digit_char_def)
  show ?thesis
    using get_band_wavelengths_last_wins [OF h1 _ _ _ h5 h6 h7] h1 h5 h6 run by simp
qed

section \<open>Statistical reduction\<close>

lemma join_concat: "join sep (x # xs) = x @ concat (map (\<lambda>y. sep @ y) xs)"
  by (induction xs arbitrary: x) auto

lemma startswith_sd: "startswith s ''sd'' \<longleftrightarrow> (\<exists>rest. s = CHR ''s'' # CHR ''d'' # rest)"
proof (cases s)
  case Nil
  then show ?thesis by simp
next
  case (Cons c cs)
  then show ?thesis by (cases cs) auto
qed

text \<open>
  Claim C5. For a non-empty list of bands \<open>i, rest\<close> and the statistic \<^verbatim>\<open>mean\<close>, the
  result is the expression text \<^verbatim>\<open>(b1 + b2 + ... + bk) / k\<close> over the band names, with
  \<^verbatim>\<open>None\<close> in place of a method name.
\<close>

theorem calculate_statistic_mean:
  "calculate_statistic raster3d (i # rest) ''mean'' =
     Inr (Expr (''('' @ band_name raster3d i
                  @ concat (map (\<lambda>j. '' + '' @ band_name raster3d j) rest)
                  @ '') / '' @ str_int (1 + int (length rest))), None)"
  by (simp add: calculate_statistic_def join_concat comp_def)

text \<open>
  C5 at a concrete input: bands 3, 7 and 12 of the stack \<^verbatim>\<open>cube\<close>.
\<close>

theorem calculate_statistic_mean_example:
  "calculate_statistic ''cube'' [3, 7, 12] ''mean'' = Inr (Expr ''(cube#3 + cube#7 + cube#12) / 3'', None)"
  using calculate_statistic_mean [of "''cube''" 3 "[7, 12]"]
  by (simp add: band_name_def str_int_def str_nat.simps digit_char_def)

text \<open>
  Claim C10. For every statistic that starts with \<^verbatim>\<open>sd\<close>, in the enumerated set or not, the
  result is the list of band names with the statistic name itself, and never the fatal
  error.
\<close>

theorem calculate_statistic_sd_prefix:
  assumes "startswith statistic ''sd''"
  shows "calculate_statistic raster3d band_indices statistic =
           Inr (Maps (map (band_name raster3d) band_indices), Some statistic)
         \<and> (\<forall>msg. calculate_statistic raster3d band_indices statistic \<noteq> Inl (Fatal msg))"
proof -
  from assms obtain rest where "statistic = CHR ''s'' # CHR ''d'' # rest"
    by (auto simp: startswith_sd)
  then show ?thesis by (simp add: calculate_statistic_def)
qed

text \<open>
  Witness for C10: \<^verbatim>\<open>sdfoo\<close>, which is not one of the declared statistics.
\<close>

theorem calculate_statistic_sd_prefix_witness:
  "startswith ''sdfoo'' ''sd'' \<and> ''sdfoo'' \<notin> set statistic_options
   \<and> calculate_statistic ''cube'' [1, 2] ''sdfoo'' = Inr (Maps [''cube#1'', ''cube#2''], Some ''sdfoo'')"
  using calculate_statistic_sd_prefix [of "''sdfoo''" "''cube''" "[1, 2]"]
  by (simp add: statistic_options_def band_name_def str_int_def str_nat.simps digit_char_def)

text \<open>
  Claim C6 as stated fails: \<^verbatim>\<open>sd9\<close> is outside the enumerated set and is passed through
  as a method name.
\<close>

theorem calculate_statistic_unknown_counterexample:
  "''sd9'' \<notin> set statistic_options
   \<and> calculate_statistic ''cube'' [1, 2] ''sd9'' = Inr (Maps [''cube#1'', ''cube#2''], Some ''sd9'')"
  by (simp add: statistic_options_def calculate_statistic_def band_name_def str_int_def
      str_nat.simps digit_char_def)

text \<open>
  Claim C6, amended. A statistic that is none of \<^verbatim>\<open>mean\<close>, \<^verbatim>\<open>median\<close>, \<^verbatim>\<open>mode\<close>,
  \<^verbatim>\<open>min\<close>, \<^verbatim>\<open>max\<close> and does not start with \<^verbatim>\<open>sd\<close> ends in the fatal error
  \<^verbatim>\<open>Unknown statistic\<close>, whatever the band list.
\<close>

theorem calculate_statistic_unknown:
  assumes "statistic \<notin> {''mean'', ''median'', ''mode'', ''min'', ''max''}"
    and "\<not> startswith statistic ''sd''"
  shows "calculate_statistic raster3d band_indices statistic =
           Inl (Fatal (''Unknown statistic: '' @ statistic))"
  using assms by (simp add: calculate_statistic_def)

text \<open>
  Witness for the amended C6.
\<close>

theorem calculate_statistic_unknown_witness:
  "''average'' \<notin> {''mean'', ''median'', ''mode'', ''min'', ''max''}
   \<and> \<not> startswith ''average'' ''sd''
   \<and> calculate_statistic ''cube'' [1, 2] ''average'' = Inl (Fatal ''Unknown statistic: average'')"
  using calculate_statistic_unknown [of "''average''" "''cube''" "[1, 2]"] by simp

section \<open>Composite assembly\<close>

lemma find_closest_band_returns:
  "wavelengths \<noteq> [] \<Longrightarrow> \<exists>band k. find_closest_band fdist t wavelengths = Inr (band, k)"
proof -
  assume "wavelengths \<noteq> []"
  then obtain k0 ks where ks: "dict_keys wavelengths = k0 # ks"
    by (cases wavelengths) (auto simp: dict_keys_def)
  from find_closest_band_key [OF ks] show ?thesis by blast
qed

lemma get_band_wavelengths_ok:
  assumes "raster3d_info E r = Inr N" and "1 \<le> N"
  shows "\<exists>es wl. get_band_wavelengths E r = (es, Inr wl) \<and> wl \<noteq> [] \<and> commands_of es = []"
proof (cases "scan_bands E r [1..N] [] = []")
  case True
  have "[1..N] \<noteq> []" using assms(2) by (simp add: upto.simps)
  then have "band_numbers N \<noteq> []" by (simp add: band_numbers_eq)
  with True assms(1) show ?thesis
    by (simp add: get_band_wavelengths_def get_raster3d_info_def seq_def ret_def emit_def)
next
  case False
  with assms(1) show ?thesis
    by (simp add: get_band_wavelengths_def get_raster3d_info_def seq_def ret_def emit_def)
qed

text \<open>
  How \<open>seq\<close> steps through the effects of a run that meets no error.
\<close>

lemma seq_emit: "seq (emit ev) f = (ev # fst (f ()), snd (f ()))"
  by (simp add: seq_def emit_def split: prod.splits)

lemma seq_ret: "seq (ret x) f = f x"
  by (simp add: seq_def ret_def split: prod.splits)

lemma seq_lift_Inr: "seq (lift (Inr x)) f = f x"
  by (simp add: seq_def lift_def split: prod.splits)

lemma seq_pyfloat: "float_of E s = Some x \<Longrightarrow> seq (pyfloat E s) f = f x"
  by (simp add: pyfloat_def seq_ret)

lemma seq_run_command:
  "run_ok E c \<Longrightarrow> seq (run_command E c) f = (Run c # fst (f ()), snd (f ()))"
  by (simp add: seq_def run_command_def split: prod.splits)

lemma seq_pair: "seq (es, Inr x) f = (es @ fst (f x), snd (f x))"
  by (simp add: seq_def split: prod.splits)

lemma seq_result: "m = (es, Inr x) \<Longrightarrow> seq m f = (es @ fst (f x), snd (f x))"
  by (simp add: seq_def split: prod.splits)

lemma commands_of_append: "commands_of (xs @ ys) = commands_of xs @ commands_of ys"
  by (induction xs rule: commands_of.induct) auto

lemma warnings_of_append: "warnings_of (xs @ ys) = warnings_of xs @ warnings_of ys"
  by (induction xs rule: warnings_of.induct) auto

lemmas seq_steps = seq_emit seq_ret seq_lift_Inr seq_pyfloat seq_run_command seq_pair
  ret_def emit_def

lemma copies_of_append: "copies_of (xs @ ys) = copies_of xs @ copies_of ys"
  by (induction xs rule: copies_of.induct) auto

lemma groups_of_append: "groups_of (xs @ ys) = groups_of xs @ groups_of ys"
  by (induction xs rule: groups_of.induct) auto

lemmas trace_append = commands_of_append warnings_of_append copies_of_append groups_of_append

text \<open>
  A run of either composite on a host where the catalog can be built, the targets parse and
  every command succeeds: it ends normally, and its warnings and commands are these.
\<close>

lemma create_cmyk_composite_run:
  assumes wl: "get_band_wavelengths E (opt_input opts) = (es0, Inr wl)"
    and fl: "float_of E (opt_cyan_wavelength opts) = Some cw"
      "float_of E (opt_magenta_wavelength opts) = Some mw"
      "float_of E (opt_yellow_wavelength opts) = Some yw"
      "float_of E (opt_key_wavelength opts) = Some kw"
    and sel: "find_closest_band (float_dist E) cw wl = Inr (cb, ck)" "find_closest_band (float_dist E) mw wl = Inr (mb, mk)"
      "find_closest_band (float_dist E) yw wl = Inr (yb, yk)" "find_closest_band (float_dist E) kw wl = Inr (kb, kk)"
    and ok: "\<forall>c. run_ok E c"
  shows "snd (create_cmyk_composite E opts flgs) = Inr ()"
    and "warnings_of (fst (create_cmyk_composite E opts flgs)) = warnings_of es0"
    and "copies_of (commands_of (fst (create_cmyk_composite E opts flgs))) =
       copies_of (commands_of es0) @
       [opt_input opts @ ''#'' @ str_int cb @ '','' @ opt_output opts @ ''_cyan'',
        opt_input opts @ ''#'' @ str_int mb @ '','' @ opt_output opts @ ''_magenta'',
        opt_input opts @ ''#'' @ str_int yb @ '','' @ opt_output opts @ ''_yellow'',
        opt_input opts @ ''#'' @ str_int kb @ '','' @ opt_output opts @ ''_key'']"
    and "groups_of (commands_of (fst (create_cmyk_composite E opts flgs))) =
       groups_of (commands_of es0) @
       [(opt_output opts @ ''_cmyk'', opt_output opts @ ''_cmyk'',
         opt_output opts @ ''_cyan,'' @ opt_output opts @ ''_magenta,''
           @ opt_output opts @ ''_yellow,'' @ opt_output opts @ ''_key'')]"
  using fl sel ok
  by (simp_all add: create_cmyk_composite_def Let_def seq_result [OF wl] seq_steps trace_append)

lemma apply_colorblind_adjustment_eq:
  "apply_colorblind_adjustment channels cb =
     (if cb \<in> {''protanopia'', ''deuteranopia'', ''tritanopia''}
      then [Message (''Applying '' @ cb @ '' color adjustments...''),
            Warning (''Colorblind adjustment for '' @ cb @ '' selected but requires post-processing'')]
      else [], Inr channels)"
  by (auto simp: apply_colorblind_adjustment_def adjustments_def seq_steps)

lemma create_rgb_composite_run:
  assumes wl: "get_band_wavelengths E (opt_input opts) = (es0, Inr wl)"
    and fl: "float_of E (opt_red_wavelength opts) = Some rw"
      "float_of E (opt_green_wavelength opts) = Some gw"
      "float_of E (opt_blue_wavelength opts) = Some bw"
    and sel: "find_closest_band (float_dist E) rw wl = Inr (rb, rk)" "find_closest_band (float_dist E) gw wl = Inr (gb, gk)"
      "find_closest_band (float_dist E) bw wl = Inr (bb, bk)"
    and ok: "\<forall>c. run_ok E c"
  shows "snd (create_rgb_composite E opts flgs) = Inr ()"
    and "warnings_of (fst (create_rgb_composite E opts flgs)) =
       warnings_of es0 @
       (if opt_colorblind opts \<in> {''protanopia'', ''deuteranopia'', ''tritanopia''}
        then [''Colorblind adjustment for '' @ opt_colorblind opts
                @ '' selected but requires post-processing'']
        else [])"
    and "copies_of (commands_of (fst (create_rgb_composite E opts flgs))) =
       copies_of (commands_of es0) @
       [opt_input opts @ ''#'' @ str_int rb @ '','' @ opt_output opts @ ''_red'',
        opt_input opts @ ''#'' @ str_int gb @ '','' @ opt_output opts @ ''_green'',
        opt_input opts @ ''#'' @ str_int bb @ '','' @ opt_output opts @ ''_blue'']"
    and "commands_of (fst (create_rgb_composite E opts flgs)) =
       commands_of es0 @
       GCopy (opt_input opts @ ''#'' @ str_int rb @ '','' @ opt_output opts @ ''_red'') #
       (if flag_n flgs
        then [RRescale (opt_output opts @ ''_red'') (opt_output opts @ ''_red'') ''0,255'']
        else []) @
       GCopy (opt_input opts @ ''#'' @ str_int gb @ '','' @ opt_output opts @ ''_green'') #
       (if flag_n flgs
        then [RRescale (opt_output opts @ ''_green'') (opt_output opts @ ''_green'') ''0,255'']
        else []) @
       GCopy (opt_input opts @ ''#'' @ str_int bb @ '','' @ opt_output opts @ ''_blue'') #
       (if flag_n flgs
        then [RRescale (opt_output opts @ ''_blue'') (opt_output opts @ ''_blue'') ''0,255'']
        else []) @
       [IGroup (opt_output opts @ ''_rgb'') (opt_output opts @ ''_rgb'')
          (opt_output opts @ ''_red,'' @ opt_output opts @ ''_green,'' @ opt_output opts @ ''_blue'')]"
  using fl sel ok
  by (simp_all add: create_rgb_composite_def Let_def seq_result [OF wl] seq_steps trace_append
      apply_colorblind_adjustment_eq)

lemma Warning_in_trace: "Warning w \<in> set es \<longleftrightarrow> w \<in> set (warnings_of es)"
  by (induction es rule: warnings_of.induct) auto

lemma upto10: "[1..10::int] = [1, 2, 3, 4, 5, 6, 7, 8, 9, 10]"
  by (simp add: upto.simps)

lemma ivl4: "{1..4::int} = {1, 2, 3, 4}"
  by auto

lemma upto4: "[1..4::int] = [1, 2, 3, 4]"
  by (simp add: upto.simps)

text \<open>
  Claim C7. A 10-band stack without wavelength metadata, with the targets 650, 550 and 450:
  the catalog is \<open>{1.0: 1, ..., 10.0: 10}\<close>, each of the three targets selects band 10 at the
  synthetic wavelength 10, and the composite copies band 10 into all three channels. The keys
  and the targets are integers, whose differences the doubles compute exactly.
\<close>

theorem fallback_selects_last_band:
  assumes info: "raster3d_info E (opt_input opts) = Inr 10"
    and none: "\<forall>i\<in>{1..10}. band_wavelength E (opt_input opts) i = None"
    and fl: "float_of E (opt_red_wavelength opts) = Some 650"
      "float_of E (opt_green_wavelength opts) = Some 550"
      "float_of E (opt_blue_wavelength opts) = Some 450"
    and exact: "\<forall>k\<in>{1..10}. \<forall>t\<in>{650, 550, 450}.
      float_dist E (real_of_int k) t = \<bar>real_of_int k - t\<bar>"
    and ok: "\<forall>c. run_ok E c"
  shows "snd (get_band_wavelengths E (opt_input opts)) =
           Inr [(1, 1), (2, 2), (3, 3), (4, 4), (5, 5), (6, 6), (7, 7), (8, 8), (9, 9), (10, 10)]
       \<and> find_closest_band (float_dist E) 650
           [(1, 1), (2, 2), (3, 3), (4, 4), (5, 5), (6, 6), (7, 7), (8, 8), (9, 9), (10, 10)] = Inr (10, 10)
       \<and> find_closest_band (float_dist E) 550
           [(1, 1), (2, 2), (3, 3), (4, 4), (5, 5), (6, 6), (7, 7), (8, 8), (9, 9), (10, 10)] = Inr (10, 10)
       \<and> find_closest_band (float_dist E) 450
           [(1, 1), (2, 2), (3, 3), (4, 4), (5, 5), (6, 6), (7, 7), (8, 8), (9, 9), (10, 10)] = Inr (10, 10)
       \<and> snd (create_rgb_composite E opts flgs) = Inr ()
       \<and> copies_of (commands_of (fst (create_rgb_composite E opts flgs))) =
           [opt_input opts @ ''#10,'' @ opt_output opts @ ''_red'',
            opt_input opts @ ''#10,'' @ opt_output opts @ ''_green'',
            opt_input opts @ ''#10,'' @ opt_output opts @ ''_blue'']"
proof -
  let ?cat = "[(1, 1), (2, 2), (3, 3), (4, 4), (5, 5), (6, 6), (7, 7), (8, 8), (9, 9), (10, 10)]
                :: (real \<times> int) list"
  let ?es = "[Verbose (''Scanning '' @ str_int 10 @ '' bands for wavelength metadata...''),
              Warning ''No wavelength metadata found. Using band numbers as wavelengths.'']"
  have "scan_bands E (opt_input opts) [1..10] [] = []"
    using none by (simp add: scan_bands_none)
  then have cat: "get_band_wavelengths E (opt_input opts) = (?es, Inr ?cat)"
    using info
    by (simp add: get_band_wavelengths_def get_raster3d_info_def seq_def ret_def emit_def
        band_numbers_eq upto10)
  have d: "\<forall>k\<in>set [1, 2, 3, 4, 5, 6, 7, 8, 9, 10]. \<forall>t\<in>{650, 550, 450}.
      float_dist E (real_of_int k) t = \<bar>real_of_int k - t\<bar>"
    using exact unfolding upto10 [symmetric] by simp
  have r: "find_closest_band (float_dist E) 650 ?cat = Inr (10, 10)"
    using d by (simp add: find_closest_band_def dict_keys_def)
  have g: "find_closest_band (float_dist E) 550 ?cat = Inr (10, 10)"
    using d by (simp add: find_closest_band_def dict_keys_def)
  have b: "find_closest_band (float_dist E) 450 ?cat = Inr (10, 10)"
    using d by (simp add: find_closest_band_def dict_keys_def)
  have ten: "str_int 10 = ''10''"
    by (simp add: str_int_def str_nat.simps digit_char_def)
  have run: "snd (create_rgb_composite E opts flgs) = Inr ()"
    by (rule create_rgb_composite_run(1) [OF cat fl r g b ok])
  have copies: "copies_of (commands_of (fst (create_rgb_composite E opts flgs))) =
           [opt_input opts @ ''#10,'' @ opt_output opts @ ''_red'',
            opt_input opts @ ''#10,'' @ opt_output opts @ ''_green'',
            opt_input opts @ ''#10,'' @ opt_output opts @ ''_blue'']"
    using create_rgb_composite_run(3) [OF cat fl r g b ok, of flgs] by (simp add: ten)
  from cat r g b run copies show ?thesis by simp
qed

text \<open>
  Witness for C7: the example host with ten bands and no metadata, and the default targets.
\<close>

theorem fallback_selects_last_band_witness:
  "raster3d_info (demo_env 10 []) (opt_input (demo_options ''rgb'' ''none'')) = Inr 10
   \<and> band_wavelength (demo_env 10 []) (opt_input (demo_options ''rgb'' ''none'')) = (\<lambda>i. None)
   \<and> float_of (demo_env 10 []) (opt_red_wavelength (demo_options ''rgb'' ''none'')) = Some 650
   \<and> float_of (demo_env 10 []) (opt_green_wavelength (demo_options ''rgb'' ''none'')) = Some 550
   \<and> float_of (demo_env 10 []) (opt_blue_wavelength (demo_options ''rgb'' ''none'')) = Some 450
   \<and> float_dist (demo_env 10 []) = (\<lambda>x t. \<bar>x - t\<bar>)
   \<and> (\<forall>c. run_ok (demo_env 10 []) c)
   \<and> copies_of (commands_of (fst (create_rgb_composite (demo_env 10 []) (demo_options ''rgb'' ''none'')
          \<lparr>flag_n = True\<rparr>))) = [''cube#10,out_red'', ''cube#10,out_green'', ''cube#10,out_blue'']"
proof -
  let ?E = "demo_env 10 []" and ?O = "demo_options ''rgb'' ''none''"
  have h1: "raster3d_info ?E (opt_input ?O) = Inr 10" by (simp add: demo_env_def)
  have h2: "\<forall>i\<in>{1..10}. band_wavelength ?E (opt_input ?O) i = None"
    by (simp add: band_wavelength_def demo_env_def)
  have h3: "float_of ?E (opt_red_wavelength ?O) = Some 650"
    by (simp add: demo_env_def demo_options_def demo_float_def digit_val_def)
  have h4: "float_of ?E (opt_green_wavelength ?O) = Some 550"
    by (simp add: demo_env_def demo_options_def demo_float_def digit_val_def)
  have h5: "float_of ?E (opt_blue_wavelength ?O) = Some 450"
    by (simp add: demo_env_def demo_options_def demo_float_def digit_val_def)
  have d: "float_dist ?E = (\<lambda>x t. \<bar>x - t\<bar>)" by (simp add: demo_env_def)
  have h6: "\<forall>k\<in>{1..10}. \<forall>t\<in>{650, 550, 450}.
      float_dist ?E (real_of_int k) t = \<bar>real_of_int k - t\<bar>"
    unfolding d by simp
  have h7: "\<forall>c. run_ok ?E c" by (simp add: demo_env_def)
  have "copies_of (commands_of (fst (create_rgb_composite ?E ?O \<lparr>flag_n = True\<rparr>))) =
      [''cube#10,out_red'', ''cube#10,out_green'', ''cube#10,out_blue'']"
    using fallback_selects_last_band [OF h1 h2 h3 h4 h5 h6 h7, of "\<lparr>flag_n = True\<rparr>"]
    by (simp add: demo_options_def)
  moreover have "band_wavelength ?E (opt_input ?O) = (\<lambda>i. None)"
    by (simp add: band_wavelength_def demo_env_def fun_eq_iff)
  ultimately show ?thesis using h1 h3 h4 h5 d h7 by blast
qed

text \<open>
  Claim C8. A CMYK assembly with output base name \<open>B\<close>, on a host where it runs to its end:
  exactly four \<^verbatim>\<open>g.copy\<close> calls are made, with the destinations \<open>B_cyan\<close>, \<open>B_magenta\<close>,
  \<open>B_yellow\<close>, \<open>B_key\<close> in this order, and exactly one group is registered, named
  \<open>B_cmyk\<close>, whose input is these four names joined in the same order.
\<close>

theorem create_cmyk_composite_group:
  assumes info: "raster3d_info E (opt_input opts) = Inr N" and depth: "1 \<le> N"
    and fl: "float_of E (opt_cyan_wavelength opts) = Some cw"
      "float_of E (opt_magenta_wavelength opts) = Some mw"
      "float_of E (opt_yellow_wavelength opts) = Some yw"
      "float_of E (opt_key_wavelength opts) = Some kw"
    and ok: "\<forall>c. run_ok E c"
  shows "\<exists>cb mb yb kb.
           snd (create_cmyk_composite E opts flgs) = Inr ()
         \<and> copies_of (commands_of (fst (create_cmyk_composite E opts flgs))) =
             [opt_input opts @ ''#'' @ str_int cb @ '','' @ opt_output opts @ ''_cyan'',
              opt_input opts @ ''#'' @ str_int mb @ '','' @ opt_output opts @ ''_magenta'',
              opt_input opts @ ''#'' @ str_int yb @ '','' @ opt_output opts @ ''_yellow'',
              opt_input opts @ ''#'' @ str_int kb @ '','' @ opt_output opts @ ''_key'']
         \<and> groups_of (commands_of (fst (create_cmyk_composite E opts flgs))) =
             [(opt_output opts @ ''_cmyk'', opt_output opts @ ''_cmyk'',
               join '','' [opt_output opts @ ''_cyan'', opt_output opts @ ''_magenta'',
                          opt_output opts @ ''_yellow'', opt_output opts @ ''_key''])]"
proof -
  obtain es0 wl where cat: "get_band_wavelengths E (opt_input opts) = (es0, Inr wl)"
    and ne: "wl \<noteq> []" and quiet: "commands_of es0 = []"
    using get_band_wavelengths_ok [OF info depth] by blast
  obtain cb ck where c: "find_closest_band (float_dist E) cw wl = Inr (cb, ck)"
    using find_closest_band_returns [OF ne] by blast
  obtain mb mk where m: "find_closest_band (float_dist E) mw wl = Inr (mb, mk)"
    using find_closest_band_returns [OF ne] by blast
  obtain yb yk where y: "find_closest_band (float_dist E) yw wl = Inr (yb, yk)"
    using find_closest_band_returns [OF ne] by blast
  obtain kb kk where k: "find_closest_band (float_dist E) kw wl = Inr (kb, kk)"
    using find_closest_band_returns [OF ne] by blast
  note run = create_cmyk_composite_run [OF cat fl c m y k ok, of flgs]
  have "snd (create_cmyk_composite E opts flgs) = Inr ()" by (rule run(1))
  moreover have "copies_of (commands_of (fst (create_cmyk_composite E opts flgs))) =
             [opt_input opts @ ''#'' @ str_int cb @ '','' @ opt_output opts @ ''_cyan'',
              opt_input opts @ ''#'' @ str_int mb @ '','' @ opt_output opts @ ''_magenta'',
              opt_input opts @ ''#'' @ str_int yb @ '','' @ opt_output opts @ ''_yellow'',
              opt_input opts @ ''#'' @ str_int kb @ '','' @ opt_output opts @ ''_key'']"
    using run(3) quiet by simp
  moreover have "groups_of (commands_of (fst (create_cmyk_composite E opts flgs))) =
             [(opt_output opts @ ''_cmyk'', opt_output opts @ ''_cmyk'',
               join '','' [opt_output opts @ ''_cyan'', opt_output opts @ ''_magenta'',
                          opt_output opts @ ''_yellow'', opt_output opts @ ''_key''])]"
    using run(4) quiet by simp
  ultimately show ?thesis by blast
qed

text \<open>
  The example host with four labelled bands: its catalog, its targets and the bands they
  select.
\<close>

lemma four_band_catalog:
  "get_band_wavelengths four_band_env ''cube'' =
     ([Verbose ''Scanning 4 bands for wavelength metadata...''],
      Inr [(450, 1), (550, 2), (650, 3), (800, 4)])"
  by (simp add: get_band_wavelengths_def get_raster3d_info_def seq_def ret_def emit_def
      upto4 four_band_env_def demo_eval)

lemma four_band_floats:
  "float_of four_band_env ''650'' = Some 650" "float_of four_band_env ''550'' = Some 550"
  "float_of four_band_env ''450'' = Some 450" "float_of four_band_env ''490'' = Some 490"
  "float_of four_band_env ''580'' = Some 580" "float_of four_band_env ''570'' = Some 570"
  "float_of four_band_env ''800'' = Some 800"
  by (simp_all add: four_band_env_def demo_env_def demo_float_def digit_val_def)

lemma four_band_ok: "\<forall>c. run_ok four_band_env c"
  by (simp add: four_band_env_def demo_env_def)

lemma four_band_select:
  "find_closest_band (float_dist four_band_env) 490 [(450, 1), (550, 2), (650, 3), (800, 4)] = Inr (1, 450)"
  "find_closest_band (float_dist four_band_env) 580 [(450, 1), (550, 2), (650, 3), (800, 4)] = Inr (2, 550)"
  "find_closest_band (float_dist four_band_env) 570 [(450, 1), (550, 2), (650, 3), (800, 4)] = Inr (2, 550)"
  "find_closest_band (float_dist four_band_env) 800 [(450, 1), (550, 2), (650, 3), (800, 4)] = Inr (4, 800)"
  "find_closest_band (float_dist four_band_env) 650 [(450, 1), (550, 2), (650, 3), (800, 4)] = Inr (3, 650)"
  "find_closest_band (float_dist four_band_env) 550 [(450, 1), (550, 2), (650, 3), (800, 4)] = Inr (2, 550)"
  "find_closest_band (float_dist four_band_env) 450 [(450, 1), (550, 2), (650, 3), (800, 4)] = Inr (1, 450)"
  by (simp_all add: find_closest_band_def dict_keys_def four_band_env_def demo_env_def)

lemma digits_1_4:
  "str_int 1 = ''1''" "str_int 2 = ''2''" "str_int 3 = ''3''" "str_int 4 = ''4''"
  by (simp_all add: str_int_def str_nat.simps digit_char_def)

text \<open>
  Witness for C8: the four-band host with the default CMYK targets and normalization on.
\<close>

theorem create_cmyk_composite_group_witness:
  "raster3d_info four_band_env (opt_input (demo_options ''cmyk'' ''none'')) = Inr 4
   \<and> float_of four_band_env (opt_cyan_wavelength (demo_options ''cmyk'' ''none'')) = Some 490
   \<and> float_of four_band_env (opt_magenta_wavelength (demo_options ''cmyk'' ''none'')) = Some 580
   \<and> float_of four_band_env (opt_yellow_wavelength (demo_options ''cmyk'' ''none'')) = Some 570
   \<and> float_of four_band_env (opt_key_wavelength (demo_options ''cmyk'' ''none'')) = Some 800
   \<and> (\<forall>c. run_ok four_band_env c)
   \<and> snd (create_cmyk_composite four_band_env (demo_options ''cmyk'' ''none'') \<lparr>flag_n = True\<rparr>) = Inr ()
   \<and> groups_of (commands_of (fst (create_cmyk_composite four_band_env (demo_options ''cmyk'' ''none'')
         \<lparr>flag_n = True\<rparr>))) = [(''out_cmyk'', ''out_cmyk'', ''out_cyan,out_magenta,out_yellow,out_key'')]"
proof -
  let ?O = "demo_options ''cmyk'' ''none''"
  have h1: "raster3d_info four_band_env (opt_input ?O) = Inr 4"
    by (simp add: four_band_env_def demo_env_def)
  have h2: "(1::int) \<le> 4" by simp
  have h3: "float_of four_band_env (opt_cyan_wavelength ?O) = Some 490"
    by (simp add: demo_options_def four_band_floats)
  have h4: "float_of four_band_env (opt_magenta_wavelength ?O) = Some 580"
    by (simp add: demo_options_def four_band_floats)
  have h5: "float_of four_band_env (opt_yellow_wavelength ?O) = Some 570"
    by (simp add: demo_options_def four_band_floats)
  have h6: "float_of four_band_env (opt_key_wavelength ?O) = Some 800"
    by (simp add: demo_options_def four_band_floats)
  have "snd (create_cmyk_composite four_band_env ?O \<lparr>flag_n = True\<rparr>) = Inr ()
    \<and> groups_of (commands_of (fst (create_cmyk_composite four_band_env ?O \<lparr>flag_n = True\<rparr>))) =
        [(''out_cmyk'', ''out_cmyk'', ''out_cyan,out_magenta,out_yellow,out_key'')]"
    using create_cmyk_composite_group [OF h1 h2 h3 h4 h5 h6 four_band_ok, of "\<lparr>flag_n = True\<rparr>"]
    by (auto simp: demo_options_def)
  with h1 h3 h4 h5 h6 four_band_ok show ?thesis by blast
qed

text \<open>
  The colorblind step changes nothing but the trace of messages: for every mode, known or not,
  \<open>apply_colorblind_adjustment\<close> returns the channels it was given and runs no host
  command.
\<close>

lemma apply_colorblind_adjustment_frame:
  "snd (apply_colorblind_adjustment channels cb) = Inr channels
   \<and> commands_of (fst (apply_colorblind_adjustment channels cb)) = []"
  by (simp add: apply_colorblind_adjustment_eq)

lemma seq_same_commands:
  assumes "\<And>x. commands_of (fst (f x)) = commands_of (fst (g x)) \<and> snd (f x) = snd (g x)"
  shows "commands_of (fst (seq m f)) = commands_of (fst (seq m g))
         \<and> snd (seq m f) = snd (seq m g)"
proof (cases m)
  case (Pair es r)
  show ?thesis
  proof (cases r)
    case (Inl e)
    with Pair show ?thesis by (simp add: seq_def)
  next
    case (Inr x)
    with Pair assms [of x] show ?thesis
      by (auto simp: seq_def commands_of_append split: prod.splits)
  qed
qed

text \<open>
  On every host and for every mode, whether the run ends normally or not, an RGB assembly
  runs the host commands and has the result of the same assembly with the mode \<^verbatim>\<open>none\<close>;
  a CMYK assembly does not depend on the mode at all.
\<close>

lemma colorblind_frame_rgb:
  "commands_of (fst (create_rgb_composite E opts flgs)) =
     commands_of (fst (create_rgb_composite E (opts\<lparr>opt_colorblind := ''none''\<rparr>) flgs))
   \<and> snd (create_rgb_composite E opts flgs) =
     snd (create_rgb_composite E (opts\<lparr>opt_colorblind := ''none''\<rparr>) flgs)"
  unfolding create_rgb_composite_def Let_def
  apply simp
  apply (rule seq_same_commands)+
  apply (simp only: split_paired_all prod.case)
  apply (rule seq_same_commands)+
  apply (simp only: split_paired_all prod.case)
  apply (rule seq_same_commands)+
  apply (simp only: split_paired_all prod.case)
  apply (rule seq_same_commands)+
  apply (simp add: apply_colorblind_adjustment_eq seq_steps commands_of_append)
  done

lemma colorblind_frame_cmyk:
  "create_cmyk_composite E (opts\<lparr>opt_colorblind := cb\<rparr>) flgs = create_cmyk_composite E opts flgs"
  by (simp add: create_cmyk_composite_def)

text \<open>
  An RGB assembly with one of the modes \<^verbatim>\<open>protanopia\<close>, \<^verbatim>\<open>deuteranopia\<close>,
  \<^verbatim>\<open>tritanopia\<close>, on a host where it runs to its end, issues the warning that the adjustment
  requires post-processing.
\<close>

lemma colorblind_warning_rgb:
  assumes info: "raster3d_info E (opt_input opts) = Inr N" and depth: "1 \<le> N"
    and fl: "float_of E (opt_red_wavelength opts) = Some rw"
      "float_of E (opt_green_wavelength opts) = Some gw"
      "float_of E (opt_blue_wavelength opts) = Some bw"
    and ok: "\<forall>c. run_ok E c"
    and mode: "opt_colorblind opts \<in> {''protanopia'', ''deuteranopia'', ''tritanopia''}"
  shows "snd (create_rgb_composite E opts flgs) = Inr ()
       \<and> Warning (''Colorblind adjustment for '' @ opt_colorblind opts
                     @ '' selected but requires post-processing'')
             \<in> set (fst (create_rgb_composite E opts flgs))"
proof -
  obtain es0 wl where cat: "get_band_wavelengths E (opt_input opts) = (es0, Inr wl)"
    and ne: "wl \<noteq> []"
    using get_band_wavelengths_ok [OF info depth] by blast
  obtain rb rk where r: "find_closest_band (float_dist E) rw wl = Inr (rb, rk)"
    using find_closest_band_returns [OF ne] by blast
  obtain gb gk where g: "find_closest_band (float_dist E) gw wl = Inr (gb, gk)"
    using find_closest_band_returns [OF ne] by blast
  obtain bb bk where b: "find_closest_band (float_dist E) bw wl = Inr (bb, bk)"
    using find_closest_band_returns [OF ne] by blast
  note run = create_rgb_composite_run [OF cat fl r g b ok, of flgs]
  have "Warning (''Colorblind adjustment for '' @ opt_colorblind opts
                     @ '' selected but requires post-processing'')
             \<in> set (fst (create_rgb_composite E opts flgs))"
    unfolding Warning_in_trace run(2) using mode by simp
  with run(1) show ?thesis by blast
qed

lemma main_result:
  assumes "snd run = Inr ()"
  shows "seq (emit ev) (\<lambda>_. seq run (\<lambda>_. emit ev')) = (ev # fst run @ [ev'], Inr ())"
proof -
  from assms have "run = (fst run, Inr ())" by (simp add: prod_eq_iff)
  then have "seq run (\<lambda>_. emit ev') = (fst run @ [ev'], Inr ())"
    by (metis emit_def fst_conv seq_result snd_conv)
  then show ?thesis by (simp add: seq_emit)
qed

text \<open>
  Claim C9. Whenever a colorblind mode other than \<^verbatim>\<open>none\<close> is requested, the program warns
  that the colour adjustment requires post-processing, and the colorblind step alters no
  channel. The module does not meet the first half on its CMYK path: on the four-band host,
  the assembly with colorspace \<^verbatim>\<open>cmyk\<close> and mode \<^verbatim>\<open>protanopia\<close> runs to its end and issues no
  warning at all, where the assembly with colorspace \<^verbatim>\<open>rgb\<close> and the same mode issues the
  warning. \<open>create_cmyk_composite\<close> never reads the option.
\<close>

theorem cmyk_colorblind_no_warning:
  "opt_colorblind (demo_options ''cmyk'' ''protanopia'') \<noteq> ''none''
   \<and> snd (main four_band_env (demo_options ''cmyk'' ''protanopia'') \<lparr>flag_n = False\<rparr>) = Inr ()
   \<and> warnings_of (fst (main four_band_env (demo_options ''cmyk'' ''protanopia'') \<lparr>flag_n = False\<rparr>)) = []
   \<and> snd (main four_band_env (demo_options ''rgb'' ''protanopia'') \<lparr>flag_n = False\<rparr>) = Inr ()
   \<and> warnings_of (fst (main four_band_env (demo_options ''rgb'' ''protanopia'') \<lparr>flag_n = False\<rparr>)) =
       [''Colorblind adjustment for protanopia selected but requires post-processing'']"
proof -
  let ?C = "demo_options ''cmyk'' ''protanopia''" and ?R = "demo_options ''rgb'' ''protanopia''"
  let ?F = "\<lparr>flag_n = False\<rparr>"
  have cat: "get_band_wavelengths four_band_env (opt_input ?C) =
     ([Verbose ''Scanning 4 bands for wavelength metadata...''],
      Inr [(450, 1), (550, 2), (650, 3), (800, 4)])"
    "get_band_wavelengths four_band_env (opt_input ?R) =
     ([Verbose ''Scanning 4 bands for wavelength metadata...''],
      Inr [(450, 1), (550, 2), (650, 3), (800, 4)])"
    by (simp_all add: demo_options_def four_band_catalog)
  have flc: "float_of four_band_env (opt_cyan_wavelength ?C) = Some 490"
    "float_of four_band_env (opt_magenta_wavelength ?C) = Some 580"
    "float_of four_band_env (opt_yellow_wavelength ?C) = Some 570"
    "float_of four_band_env (opt_key_wavelength ?C) = Some 800"
    by (simp_all add: demo_options_def four_band_floats)
  have flr: "float_of four_band_env (opt_red_wavelength ?R) = Some 650"
    "float_of four_band_env (opt_green_wavelength ?R) = Some 550"
    "float_of four_band_env (opt_blue_wavelength ?R) = Some 450"
    by (simp_all add: demo_options_def four_band_floats)
  note c = create_cmyk_composite_run [OF cat(1) flc four_band_select(1-4) four_band_ok, of ?F]
  note r = create_rgb_composite_run [OF cat(2) flr four_band_select(5-7) four_band_ok, of ?F]
  have mc: "main four_band_env ?C ?F =
      (Message (''Creating '' @ upper ''cmyk'' @ '' composite...'')
         # fst (create_cmyk_composite four_band_env ?C ?F)
         @ [Message ''Composite creation complete!''], Inr ())"
    using main_result [OF c(1)] by (simp add: main_def Let_def demo_options_def)
  have mr: "main four_band_env ?R ?F =
      (Message (''Creating '' @ upper ''rgb'' @ '' composite...'')
         # fst (create_rgb_composite four_band_env ?R ?F)
         @ [Message ''Composite creation complete!''], Inr ())"
    using main_result [OF r(1)] by (simp add: main_def Let_def demo_options_def)
  have wc: "warnings_of (fst (main four_band_env ?C ?F)) = []"
    unfolding mc using c(2) by (simp add: warnings_of_append)
  have wr: "warnings_of (fst (main four_band_env ?R ?F)) =
       [''Colorblind adjustment for protanopia selected but requires post-processing'']"
    unfolding mr using r(2) by (simp add: warnings_of_append demo_options_def)
  from mc mr wc wr show ?thesis by (simp add: demo_options_def)
qed

end
